theory Spec2Isabelle
  imports Main "HOL-Library.Word"
begin

unbundle bit_operations_syntax

section \<open>Data model of package bon\<close>

text \<open>
  \<^verbatim>\<open>type Route uint32\<close>. Bytes are 8-bit words, the handshake integers are 32-bit
  words.
\<close>

type_synonym byte = "8 word"
type_synonym uint32 = "32 word"
type_synonym Route = uint32

text \<open>
  Go's \<^verbatim>\<open>error\<close> interface values that occur: the package's own
  \<^verbatim>\<open>HandlerError{Route}\<close>, the end of a stream, and errors of the connection
  provider or of the connection, which the package never inspects (a number names each).
\<close>

datatype error = HandlerError Route | EOF | NetError nat

text \<open>
  A handler is a Go function value \<^verbatim>\<open>func(net.Conn)\<close>. The package only ever
  compares it with \<^verbatim>\<open>nil\<close> and calls it, so a function value is an opaque
  identifier and a possibly-nil function value is a \<open>handler option\<close> with
  \<open>None\<close> for \<^verbatim>\<open>nil\<close>.
\<close>

datatype handler = Handler nat

subsection \<open>net.Conn\<close>

text \<open>
  A connection is an external object; the model scripts what it will do.
  \<^item> \<open>incoming\<close>: the chunks in which the peer's bytes arrive, each with the error
    that the \<^verbatim>\<open>Read\<close> call draining the chunk reports (\<open>None\<close> for
    \<^verbatim>\<open>nil\<close>). A stream with nothing left reports \<open>EOF\<close>.
  \<^item> \<open>write_errs\<close>: the error of each successive \<^verbatim>\<open>Write\<close> call
    (\<open>None\<close>, or no entry left, for success).
  \<^item> \<open>close_err\<close>: what \<^verbatim>\<open>Close\<close> returns.
  \<^item> \<open>outgoing\<close>: the bytes written so far; \<open>closed\<close>: whether
    \<^verbatim>\<open>Close\<close> was called.
\<close>

record conn =
  incoming :: "(byte list \<times> error option) list"
  write_errs :: "error option list"
  close_err :: "error option"
  outgoing :: "byte list"
  closed :: bool

text \<open>
  \<^verbatim>\<open>conn.Read(buf)\<close> with \<^verbatim>\<open>len(buf) = k\<close>: returns the bytes it
  stored at the front of \<^verbatim>\<open>buf\<close> (their number is Go's \<^verbatim>\<open>n\<close>) and the
  error. As \<^verbatim>\<open>io.Reader\<close> allows, it returns what is available, at most
  \<open>k\<close> bytes, without waiting for more.
\<close>

definition conn_Read :: "conn \<Rightarrow> nat \<Rightarrow> (byte list \<times> error option) \<times> conn" where
  "conn_Read c k =
     (case incoming c of
        [] \<Rightarrow> (([], Some EOF), c)
      | (bs, e) # rest \<Rightarrow>
          if length bs \<le> k then ((bs, e), c\<lparr>incoming := rest\<rparr>)
          else ((take k bs, None), c\<lparr>incoming := (drop k bs, e) # rest\<rparr>))"

text \<open>
  \<^verbatim>\<open>conn.Write(buf)\<close>: all of \<^verbatim>\<open>buf\<close> is sent, or an error is returned
  (a Go \<^verbatim>\<open>Write\<close> that sends less must return an error).
\<close>

definition next_write_err :: "conn \<Rightarrow> error option" where
  "next_write_err c = (case write_errs c of [] \<Rightarrow> None | e # rest \<Rightarrow> e)"

definition conn_Write :: "conn \<Rightarrow> byte list \<Rightarrow> error option \<times> conn" where
  "conn_Write c bs =
     (case next_write_err c of
        None \<Rightarrow> (None, c\<lparr>write_errs := tl (write_errs c), outgoing := outgoing c @ bs\<rparr>)
      | Some e \<Rightarrow> (Some e, c\<lparr>write_errs := tl (write_errs c)\<rparr>))"

definition conn_Close :: "conn \<Rightarrow> error option \<times> conn" where
  "conn_Close c = (close_err c, c\<lparr>closed := True\<rparr>)"

subsection \<open>encoding/binary, big endian\<close>

text \<open>
  \<^verbatim>\<open>binary.BigEndian.PutUint32(buf, v)\<close> on a fresh 4-byte buffer:
  \<^verbatim>\<open>buf[0] = byte(v >> 24); buf[1] = byte(v >> 16); buf[2] = byte(v >> 8); buf[3] = byte(v)\<close>.
\<close>

definition BigEndian_PutUint32 :: "uint32 \<Rightarrow> byte list" where
  "BigEndian_PutUint32 v =
     [ucast (drop_bit 24 v), ucast (drop_bit 16 v), ucast (drop_bit 8 v), ucast v]"

text \<open>
  \<^verbatim>\<open>binary.BigEndian.Uint32(b)\<close>:
  \<^verbatim>\<open>uint32(b[3]) | uint32(b[2])<<8 | uint32(b[1])<<16 | uint32(b[0])<<24\<close>.
  The package calls it on its own 4-byte buffer only.
\<close>

definition BigEndian_Uint32 :: "byte list \<Rightarrow> uint32" where
  "BigEndian_Uint32 b =
     ucast (b ! 3) OR push_bit 8 (ucast (b ! 2)) OR push_bit 16 (ucast (b ! 1))
       OR push_bit 24 (ucast (b ! 0))"

subsection \<open>Transporter and Bon\<close>

text \<open>
  The \<^verbatim>\<open>Transporter\<close> interface. The provider is external and stateful: each
  method takes the provider's state \<open>'s\<close> and returns the next one. Go's result
  pair \<^verbatim>\<open>(net.Conn, error)\<close> is a sum: \<open>Inl err\<close> for a non-nil error,
  \<open>Inr conn\<close> otherwise.
\<close>

record 's Transporter =
  Open :: "Route \<Rightarrow> 's \<Rightarrow> (error + conn) \<times> 's"
  Accept :: "'s \<Rightarrow> (error + conn) \<times> 's"
  Close :: "'s \<Rightarrow> error option \<times> 's"

text \<open>
  \<^verbatim>\<open>struct Bon\<close>. \<open>tstate\<close> is the current state of the provider behind
  \<open>transporter\<close>. \<open>handlers\<close> is the Go map: a key may be present with a
  \<^verbatim>\<open>nil\<close> function value. \<open>log\<close> is what \<^verbatim>\<open>b.log.Println\<close> has
  printed. The two mutexes guard \<open>handlers\<close> and \<open>nonMatchingHandler\<close>; the
  sequential functions below run each locked section as one step.
\<close>

record 's Bon =
  transporter :: "'s Transporter"
  tstate :: 's
  handlers :: "Route \<rightharpoonup> handler option"
  nonMatchingHandler :: "handler option"
  log :: "error list"

text \<open>\<^verbatim>\<open>New(t)\<close>: an empty route map, no fallback handler.\<close>

definition New :: "'s Transporter \<Rightarrow> 's \<Rightarrow> 's Bon" where
  "New t s = \<lparr>transporter = t, tstate = s, handlers = Map.empty,
     nonMatchingHandler = None, log = []\<rparr>"

section \<open>The registry\<close>

definition Handle :: "Route \<Rightarrow> handler option \<Rightarrow> 's Bon \<Rightarrow> 's Bon" where
  "Handle r h b = b\<lparr>handlers := (handlers b)(r \<mapsto> h)\<rparr>"

definition HandleNonMatching :: "handler option \<Rightarrow> 's Bon \<Rightarrow> 's Bon" where
  "HandleNonMatching h b = b\<lparr>nonMatchingHandler := h\<rparr>"

definition Off :: "Route \<Rightarrow> 's Bon \<Rightarrow> 's Bon" where
  "Off r b = b\<lparr>handlers := (handlers b)(r := None)\<rparr>"

definition OffNonMatching :: "'s Bon \<Rightarrow> 's Bon" where
  "OffNonMatching b = b\<lparr>nonMatchingHandler := None\<rparr>"

text \<open>
  Go's map index expression \<^verbatim>\<open>b.handlers[r]\<close>: the zero value \<^verbatim>\<open>nil\<close>
  for a key that is absent.
\<close>

definition map_index :: "(Route \<rightharpoonup> handler option) \<Rightarrow> Route \<Rightarrow> handler option" where
  "map_index m r = (case m r of None \<Rightarrow> None | Some h \<Rightarrow> h)"

section \<open>The handshake\<close>

text \<open>
  \<^verbatim>\<open>const ( handlerExists uint32 = 1 << iota; nonMatchingHandlerExists;
  handlerDoesNotExists )\<close>
\<close>

definition handlerExists :: uint32 where
  "handlerExists = push_bit 0 1"

definition nonMatchingHandlerExists :: uint32 where
  "nonMatchingHandlerExists = push_bit 1 1"

definition handlerDoesNotExists :: uint32 where
  "handlerDoesNotExists = push_bit 2 1"

definition writeUInt32 :: "conn \<Rightarrow> uint32 \<Rightarrow> error option \<times> conn" where
  "writeUInt32 c data = conn_Write c (BigEndian_PutUint32 data)"

text \<open>
  \<^verbatim>\<open>readUInt32\<close>: one \<^verbatim>\<open>Read\<close> into a zeroed 4-byte buffer; the count
  that \<^verbatim>\<open>Read\<close> returns is discarded, and the whole buffer is decoded.
\<close>

definition readUInt32 :: "conn \<Rightarrow> (error + uint32) \<times> conn" where
  "readUInt32 c =
     (case conn_Read c 4 of
        ((bs, Some err), c') \<Rightarrow> (Inl err, c')
      | ((bs, None), c') \<Rightarrow>
          (Inr (BigEndian_Uint32 (bs @ replicate (4 - length bs) 0)), c'))"

text \<open>
  \<^verbatim>\<open>Connect\<close>. Beside Go's result (\<open>Inl err\<close> is \<^verbatim>\<open>(nil, err)\<close>,
  \<open>Inr conn\<close> is \<^verbatim>\<open>(conn, nil)\<close>) the model returns the state in which the
  call leaves the connection it opened (\<open>None\<close> when \<^verbatim>\<open>Open\<close> failed), and
  the \<open>Bon\<close> with the provider's next state.
\<close>

definition Connect :: "'s Bon \<Rightarrow> Route \<Rightarrow> (error + conn) \<times> conn option \<times> 's Bon" where
  "Connect b r =
     (case Open (transporter b) r (tstate b) of
        (Inl err, s') \<Rightarrow> (Inl err, None, b\<lparr>tstate := s'\<rparr>)
      | (Inr conn, s') \<Rightarrow>
          (case writeUInt32 conn r of
             (Some err, conn1) \<Rightarrow> (Inl err, Some conn1, b\<lparr>tstate := s'\<rparr>)
           | (None, conn1) \<Rightarrow>
               (case readUInt32 conn1 of
                  (Inl err, conn2) \<Rightarrow> (Inl err, Some conn2, b\<lparr>tstate := s'\<rparr>)
                | (Inr data, conn2) \<Rightarrow>
                    if data = handlerExists then (Inr conn2, Some conn2, b\<lparr>tstate := s'\<rparr>)
                    else if data = nonMatchingHandlerExists
                      then (Inr conn2, Some conn2, b\<lparr>tstate := s'\<rparr>)
                    else (Inl (HandlerError r), Some conn2, b\<lparr>tstate := s'\<rparr>))))"

text \<open>
  How \<^verbatim>\<open>handleConn\<close> ends for one connection:
  \<^item> \<open>Abandoned c\<close>: a handshake read or write failed; the function returned, leaving
    the connection in state \<open>c\<close>;
  \<^item> \<open>Dispatched h c\<close>: its last action was the call \<^verbatim>\<open>h(conn)\<close>, the
    connection being in state \<open>c\<close> at the call;
  \<^item> \<open>Rejected c\<close>: no handler; it called \<^verbatim>\<open>conn.Close()\<close>, which left
    the connection in state \<open>c\<close>.
\<close>

datatype outcome = Abandoned conn | Dispatched handler conn | Rejected conn

definition handleConn :: "'s Bon \<Rightarrow> conn \<Rightarrow> outcome \<times> 's Bon" where
  "handleConn b conn =
     (case readUInt32 conn of
        (Inl err, conn1) \<Rightarrow> (Abandoned conn1, b\<lparr>log := log b @ [err]\<rparr>)
      | (Inr data, conn1) \<Rightarrow>
          (let h = map_index (handlers b) data;
               (handlerExistence, h) =
                 (if h \<noteq> None then (handlerExists, h)
                  else (let h = nonMatchingHandler b in
                        if h \<noteq> None then (nonMatchingHandlerExists, nonMatchingHandler b)
                        else (handlerDoesNotExists, h)))
           in (case writeUInt32 conn1 handlerExistence of
                 (Some err, conn2) \<Rightarrow> (Abandoned conn2, b\<lparr>log := log b @ [err]\<rparr>)
               | (None, conn2) \<Rightarrow>
                   (case h of
                      Some f \<Rightarrow> (Dispatched f conn2, b)
                    | None \<Rightarrow>
                        (case conn_Close conn2 of
                           (Some err, conn3) \<Rightarrow> (Rejected conn3, b\<lparr>log := log b @ [err]\<rparr>)
                         | (None, conn3) \<Rightarrow> (Rejected conn3, b))))))"

text \<open>
  \<^verbatim>\<open>Run\<close>: the \<^verbatim>\<open>for\<close> loop may run forever, so not returning is
  \<open>None\<close>. Each \<^verbatim>\<open>go b.handleConn(conn)\<close> works on its own connection; the
  model runs it when it is spawned and collects the outcomes in \<open>spawned\<close>. The
  result is the error returned, the outcomes of the goroutines spawned, and the final
  \<open>Bon\<close>.
\<close>

partial_function (option) Run_loop ::
  "'s Bon \<Rightarrow> outcome list \<Rightarrow> (error \<times> outcome list \<times> 's Bon) option" where
  "Run_loop b spawned =
     (case Accept (transporter b) (tstate b) of
        (Inl err, s') \<Rightarrow> Some (err, spawned, b\<lparr>tstate := s'\<rparr>)
      | (Inr conn, s') \<Rightarrow>
          (case handleConn (b\<lparr>tstate := s'\<rparr>) conn of
             (out, b') \<Rightarrow> Run_loop b' (spawned @ [out])))"

definition Run :: "'s Bon \<Rightarrow> (error \<times> outcome list \<times> 's Bon) option" where
  "Run b = Run_loop b []"

section \<open>Dispatch under concurrent registry writes\<close>

text \<open>
  \<^verbatim>\<open>Handle\<close>, \<^verbatim>\<open>Off\<close>, \<^verbatim>\<open>HandleNonMatching\<close> and
  \<^verbatim>\<open>OffNonMatching\<close> take the write lock for their whole body, so each is
  one atomic step of another goroutine.
\<close>

datatype regop =
    OpHandle Route "handler option"
  | OpOff Route
  | OpHandleNonMatching "handler option"
  | OpOffNonMatching

fun apply_op :: "regop \<Rightarrow> 's Bon \<Rightarrow> 's Bon" where
  "apply_op (OpHandle r h) b = Handle r h b"
| "apply_op (OpOff r) b = Off r b"
| "apply_op (OpHandleNonMatching h) b = HandleNonMatching h b"
| "apply_op OpOffNonMatching b = OffNonMatching b"

definition apply_ops :: "regop list \<Rightarrow> 's Bon \<Rightarrow> 's Bon" where
  "apply_ops ops b = fold apply_op ops b"

text \<open>
  \<^verbatim>\<open>handleConn\<close> reads the registry three times: \<^verbatim>\<open>b.handlers[Route(data)]\<close>
  under \<^verbatim>\<open>hm.RLock\<close>, \<^verbatim>\<open>b.nonMatchingHandler\<close> under
  \<^verbatim>\<open>nhm.RLock\<close>, and \<^verbatim>\<open>b.nonMatchingHandler\<close> once more after
  \<^verbatim>\<open>nhm.RUnlock\<close>, holding no lock. \<open>handleConn_racing w1 w2 w3\<close> is
  \<^verbatim>\<open>handleConn\<close> with the registry writes \<open>w1\<close> of other goroutines
  taking effect before the first of these reads, \<open>w2\<close> between the first and the
  second, and \<open>w3\<close> between the second and the third.
\<close>

definition handleConn_racing ::
  "regop list \<Rightarrow> regop list \<Rightarrow> regop list \<Rightarrow> 's Bon \<Rightarrow> conn \<Rightarrow> outcome \<times> 's Bon" where
  "handleConn_racing w1 w2 w3 b conn =
     (case readUInt32 conn of
        (Inl err, conn1) \<Rightarrow> (Abandoned conn1, b\<lparr>log := log b @ [err]\<rparr>)
      | (Inr data, conn1) \<Rightarrow>
          (let b1 = apply_ops w1 b;
               h = map_index (handlers b1) data;
               (handlerExistence, h, b') =
                 (if h \<noteq> None then (handlerExists, h, b1)
                  else (let b2 = apply_ops w2 b1;
                            h = nonMatchingHandler b2 in
                        if h \<noteq> None
                        then (let b3 = apply_ops w3 b2
                              in (nonMatchingHandlerExists, nonMatchingHandler b3, b3))
                        else (handlerDoesNotExists, h, b2)))
           in (case writeUInt32 conn1 handlerExistence of
                 (Some err, conn2) \<Rightarrow> (Abandoned conn2, b'\<lparr>log := log b' @ [err]\<rparr>)
               | (None, conn2) \<Rightarrow>
                   (case h of
                      Some f \<Rightarrow> (Dispatched f conn2, b')
                    | None \<Rightarrow>
                        (case conn_Close conn2 of
                           (Some err, conn3) \<Rightarrow> (Rejected conn3, b'\<lparr>log := log b' @ [err]\<rparr>)
                         | (None, conn3) \<Rightarrow> (Rejected conn3, b'))))))"

section \<open>Connections and providers to run the functions on\<close>

text \<open>A healthy connection on which the peer's bytes arrive in the given chunks.\<close>

definition chunked :: "byte list list \<Rightarrow> conn" where
  "chunked bss = \<lparr>incoming = map (\<lambda>bs. (bs, None)) bss, write_errs = [],
     close_err = None, outgoing = [], closed = False\<rparr>"

text \<open>\<^verbatim>\<open>var ErrNet = errors.New("net error")\<close> of the tests.\<close>

definition ErrNet :: error where
  "ErrNet = NetError 0"

text \<open>
  A provider that hands out scripted results: the state is the list of results its
  \<^verbatim>\<open>Open\<close> calls will return and the list its \<^verbatim>\<open>Accept\<close> calls will
  return; with nothing left, and after \<^verbatim>\<open>Close\<close>, both fail with
  \<open>ErrNet\<close>, like the tests' provider.
\<close>

definition scripted :: "((error + conn) list \<times> (error + conn) list) Transporter" where
  "scripted =
     \<lparr>Open = (\<lambda>r (os, as). case os of [] \<Rightarrow> (Inl ErrNet, (os, as))
                                      | x # xs \<Rightarrow> (x, (xs, as))),
      Accept = (\<lambda>(os, as). case as of [] \<Rightarrow> (Inl ErrNet, (os, as))
                                    | x # xs \<Rightarrow> (x, (os, xs))),
      Close = (\<lambda>(os, as). (None, ([], [])))\<rparr>"

section \<open>Vocabulary for the statements\<close>

text \<open>The connection an outcome is about.\<close>

fun outcome_conn :: "outcome \<Rightarrow> conn" where
  "outcome_conn (Abandoned c) = c"
| "outcome_conn (Dispatched h c) = c"
| "outcome_conn (Rejected c) = c"

text \<open>
  \<open>accept_state t n s\<close> is the provider's state after \<open>n\<close> calls of
  \<^verbatim>\<open>Accept\<close> from state \<open>s\<close>, and \<open>nth_accept t n s\<close> is what the call
  after those returns.
\<close>

fun accept_state :: "'s Transporter \<Rightarrow> nat \<Rightarrow> 's \<Rightarrow> 's" where
  "accept_state t 0 s = s"
| "accept_state t (Suc n) s = accept_state t n (snd (Accept t s))"

definition nth_accept :: "'s Transporter \<Rightarrow> nat \<Rightarrow> 's \<Rightarrow> error + conn" where
  "nth_accept t n s = fst (Accept t (accept_state t n s))"

section \<open>Encoding lemmas\<close>

lemma Uint32_PutUint32: "BigEndian_Uint32 (BigEndian_PutUint32 v) = v"
proof (rule bit_word_eqI)
  fix n assume "n < LENGTH(32)"
  then have n: "n < 32" by simp
  consider "n < 8" | "8 \<le> n" "n < 16" | "16 \<le> n" "n < 24" | "24 \<le> n" by linarith
  then show "bit (BigEndian_Uint32 (BigEndian_PutUint32 v)) n = bit v n"
    using n by cases (auto simp add: BigEndian_Uint32_def BigEndian_PutUint32_def bit_simps)
qed

lemma length_PutUint32: "length (BigEndian_PutUint32 v) = 4"
  by (simp add: BigEndian_PutUint32_def)

lemma status_values:
  "handlerExists = 1" "nonMatchingHandlerExists = 2" "handlerDoesNotExists = 4"
  by (simp_all add: handlerExists_def nonMatchingHandlerExists_def handlerDoesNotExists_def)

section \<open>Connection lemmas\<close>

lemma writeUInt32_ok:
  "next_write_err c = None \<Longrightarrow>
   writeUInt32 c v =
     (None, c\<lparr>write_errs := tl (write_errs c), outgoing := outgoing c @ BigEndian_PutUint32 v\<rparr>)"
  by (simp add: writeUInt32_def conn_Write_def)

lemma writeUInt32_fail:
  "next_write_err c = Some e \<Longrightarrow>
   writeUInt32 c v = (Some e, c\<lparr>write_errs := tl (write_errs c)\<rparr>)"
  by (simp add: writeUInt32_def conn_Write_def)

lemma writeUInt32_None:
  "writeUInt32 c v = (None, c') \<Longrightarrow>
   next_write_err c = None \<and>
   c' = c\<lparr>write_errs := tl (write_errs c), outgoing := outgoing c @ BigEndian_PutUint32 v\<rparr>"
  by (auto simp add: writeUInt32_def conn_Write_def split: option.splits)

lemma readUInt32_full:
  "incoming c = (bs, None) # rest \<Longrightarrow> length bs = 4 \<Longrightarrow>
   readUInt32 c = (Inr (BigEndian_Uint32 bs), c\<lparr>incoming := rest\<rparr>)"
  by (simp add: readUInt32_def conn_Read_def)

lemma readUInt32_conn:
  "readUInt32 c = (res, c') \<Longrightarrow>
   write_errs c' = write_errs c \<and> close_err c' = close_err c \<and>
   outgoing c' = outgoing c \<and> closed c' = closed c"
  by (auto simp add: readUInt32_def conn_Read_def split: list.splits option.splits if_splits)

lemma bit_one_hot: "k < 32 \<Longrightarrow> bit (push_bit k 1 :: uint32) n = (n = k)"
  by (auto simp add: push_bit_of_1 bit_exp_iff possible_bit_word)

lemma status_bits:
  "bit handlerExists n = (n = 0)"
  "bit nonMatchingHandlerExists n = (n = 1)"
  "bit handlerDoesNotExists n = (n = 2)"
  unfolding handlerExists_def nonMatchingHandlerExists_def handlerDoesNotExists_def
  by (rule bit_one_hot; simp)+

section \<open>Dispatch lemmas\<close>

lemma handleConn_exact:
  assumes "readUInt32 c = (Inr data, c1)" and "next_write_err c1 = None"
      and "map_index (handlers b) data = Some h"
  shows "handleConn b c =
     (Dispatched h (c1\<lparr>write_errs := tl (write_errs c1),
        outgoing := outgoing c1 @ BigEndian_PutUint32 handlerExists\<rparr>), b)"
  using assms by (simp add: handleConn_def writeUInt32_ok)

lemma handleConn_fallback:
  assumes "readUInt32 c = (Inr data, c1)" and "next_write_err c1 = None"
      and "map_index (handlers b) data = None" and "nonMatchingHandler b = Some h"
  shows "handleConn b c =
     (Dispatched h (c1\<lparr>write_errs := tl (write_errs c1),
        outgoing := outgoing c1 @ BigEndian_PutUint32 nonMatchingHandlerExists\<rparr>), b)"
  using assms by (simp add: handleConn_def writeUInt32_ok)

lemma handleConn_no_handler:
  assumes "readUInt32 c = (Inr data, c1)" and "next_write_err c1 = None"
      and "map_index (handlers b) data = None" and "nonMatchingHandler b = None"
  shows "handleConn b c =
     (Rejected (c1\<lparr>write_errs := tl (write_errs c1),
        outgoing := outgoing c1 @ BigEndian_PutUint32 handlerDoesNotExists,
        closed := True\<rparr>),
      b\<lparr>log := log b @ (case close_err c1 of None \<Rightarrow> [] | Some e \<Rightarrow> [e])\<rparr>)"
  using assms
  by (simp add: handleConn_def writeUInt32_ok conn_Close_def split: option.splits)

lemma map_index_Handle_nil: "map_index (handlers (Handle r None b)) r = None"
  by (simp add: Handle_def map_index_def)

lemma map_index_Off: "map_index (handlers (Off r b)) r = None"
  by (simp add: Off_def map_index_def)

lemma handleConn_racing_none: "handleConn_racing [] [] [] b c = handleConn b c"
  by (simp add: handleConn_racing_def handleConn_def apply_ops_def Let_def split: prod.splits sum.splits)

lemma Off_Handle: "Off r (Handle r h b) = Off r b"
  by (simp add: Off_def Handle_def)

lemma Off_absent: "r \<notin> dom (handlers b) \<Longrightarrow> Off r b = b"
  by (simp add: Off_def domIff)

lemma handleConn_nil_entry:
  "fst (handleConn (Handle r None b) c) = fst (handleConn (Off r b) c)"
  "log (snd (handleConn (Handle r None b) c)) = log (snd (handleConn (Off r b) c))"
  by (auto simp add: handleConn_def Handle_def Off_def map_index_def Let_def conn_Close_def split: prod.splits sum.splits option.splits)

section \<open>The accept loop\<close>

lemma handleConn_provider:
  "transporter (snd (handleConn b c)) = transporter b"
  "tstate (snd (handleConn b c)) = tstate b"
  by (auto simp add: handleConn_def Let_def split: prod.splits sum.splits option.splits)

lemma nth_accept_Suc:
  "nth_accept t (Suc k) s = nth_accept t k (snd (Accept t s))"
  by (simp add: nth_accept_def)

lemma Run_loop_returns:
  assumes "\<forall>k<n. \<exists>c. nth_accept (transporter b) k (tstate b) = Inr c"
      and "nth_accept (transporter b) n (tstate b) = Inl e"
  shows "\<exists>outs bf. Run_loop b sp = Some (e, sp @ outs, bf) \<and> length outs = n \<and>
           tstate bf = accept_state (transporter b) (Suc n) (tstate b)"
  using assms
proof (induction n arbitrary: b sp)
  case 0
  then obtain s' where "Accept (transporter b) (tstate b) = (Inl e, s')"
    by (cases "Accept (transporter b) (tstate b)") (simp add: nth_accept_def)
  then show ?case by (simp add: Run_loop.simps)
next
  case (Suc n)
  from Suc.prems(1) obtain c where "nth_accept (transporter b) 0 (tstate b) = Inr c"
    by blast
  then obtain s' where acc: "Accept (transporter b) (tstate b) = (Inr c, s')"
    by (cases "Accept (transporter b) (tstate b)") (simp add: nth_accept_def)
  obtain out b' where h: "handleConn (b\<lparr>tstate := s'\<rparr>) c = (out, b')"
    by (cases "handleConn (b\<lparr>tstate := s'\<rparr>) c")
  have b': "transporter b' = transporter b" "tstate b' = s'"
    using handleConn_provider [of "b\<lparr>tstate := s'\<rparr>" c] h by simp_all
  have step: "Run_loop b sp = Run_loop b' (sp @ [out])"
    using acc h by (subst Run_loop.simps) simp
  have 1: "\<forall>k<n. \<exists>c. nth_accept (transporter b') k (tstate b') = Inr c"
  proof (intro allI impI)
    fix k assume "k < n"
    then have "\<exists>c. nth_accept (transporter b) (Suc k) (tstate b) = Inr c"
      using Suc.prems(1) by simp
    then show "\<exists>c. nth_accept (transporter b') k (tstate b') = Inr c"
      using acc b' by (simp add: nth_accept_Suc)
  qed
  have 2: "nth_accept (transporter b') n (tstate b') = Inl e"
    using Suc.prems(2) acc b' by (simp add: nth_accept_Suc)
  from Suc.IH [OF 1 2, of "sp @ [out]"]
  obtain outs bf where r: "Run_loop b' (sp @ [out]) = Some (e, (sp @ [out]) @ outs, bf)"
    "length outs = n" "tstate bf = accept_state (transporter b') (Suc n) (tstate b')"
    by blast
  have "Run_loop b sp = Some (e, sp @ (out # outs), bf) \<and> length (out # outs) = Suc n \<and>
          tstate bf = accept_state (transporter b) (Suc (Suc n)) (tstate b)"
    using step r acc b' by simp
  then show ?case by blast
qed

lemma Run_loop_sound:
  assumes "Run_loop b sp = Some res"
  shows "\<exists>n. (\<forall>k<n. \<exists>c. nth_accept (transporter b) k (tstate b) = Inr c) \<and>
       nth_accept (transporter b) n (tstate b) = Inl (fst res)"
proof (rule Run_loop.raw_induct
    [where P = "\<lambda>b sp res. \<exists>n. (\<forall>k<n. \<exists>c. nth_accept (transporter b) k (tstate b) = Inr c) \<and>
       nth_accept (transporter b) n (tstate b) = Inl (fst res)", OF _ assms])
  fix run :: "'a Bon \<Rightarrow> outcome list \<Rightarrow> (error \<times> outcome list \<times> 'a Bon) option"
  fix b sp res
  assume IH: "\<And>b sp res. run b sp = Some res \<Longrightarrow>
      \<exists>n. (\<forall>k<n. \<exists>c. nth_accept (transporter b) k (tstate b) = Inr c) \<and>
       nth_accept (transporter b) n (tstate b) = Inl (fst res)"
  assume eq: "(case Accept (transporter b) (tstate b) of
      (Inl err, s') \<Rightarrow> Some (err, sp, b\<lparr>tstate := s'\<rparr>)
      | (Inr conn, s') \<Rightarrow>
          case handleConn (b\<lparr>tstate := s'\<rparr>) conn of
          (out, b') \<Rightarrow> run b' (sp @ [out])) = Some res"
  show "\<exists>n. (\<forall>k<n. \<exists>c. nth_accept (transporter b) k (tstate b) = Inr c) \<and>
       nth_accept (transporter b) n (tstate b) = Inl (fst res)"
  proof (cases "Accept (transporter b) (tstate b)")
    case (Pair x s')
    show ?thesis
    proof (cases x)
      case (Inl err)
      with Pair eq have "fst res = err" by auto
      with Pair Inl have "nth_accept (transporter b) 0 (tstate b) = Inl (fst res)"
        by (simp add: nth_accept_def)
      then show ?thesis by (intro exI [of _ 0]) simp
    next
      case (Inr c)
      obtain out b' where h: "handleConn (b\<lparr>tstate := s'\<rparr>) c = (out, b')"
        by (cases "handleConn (b\<lparr>tstate := s'\<rparr>) c")
      have b': "transporter b' = transporter b" "tstate b' = s'"
        using handleConn_provider [of "b\<lparr>tstate := s'\<rparr>" c] h by simp_all
      from eq Pair Inr h have "run b' (sp @ [out]) = Some res" by simp
      from IH [OF this] obtain n where
        n: "\<forall>k<n. \<exists>c. nth_accept (transporter b') k (tstate b') = Inr c"
           "nth_accept (transporter b') n (tstate b') = Inl (fst res)"
        by blast
      have "\<forall>k<Suc n. \<exists>c. nth_accept (transporter b) k (tstate b) = Inr c"
      proof (intro allI impI)
        fix k assume k: "k < Suc n"
        show "\<exists>c. nth_accept (transporter b) k (tstate b) = Inr c"
        proof (cases k)
          case 0
          then show ?thesis using Pair Inr by (simp add: nth_accept_def)
        next
          case (Suc j)
          then show ?thesis using k n(1) Pair b' by (simp add: nth_accept_Suc)
        qed
      qed
      moreover have "nth_accept (transporter b) (Suc n) (tstate b) = Inl (fst res)"
        using n(2) Pair b' by (simp add: nth_accept_Suc)
      ultimately show ?thesis by blast
    qed
  qed
qed

section \<open>Evaluation\<close>

lemmas conn_eval =
  readUInt32_def conn_Read_def writeUInt32_def conn_Write_def next_write_err_def
  conn_Close_def chunked_def BigEndian_Uint32_def BigEndian_PutUint32_def

lemmas bon_eval =
  New_def scripted_def Handle_def Off_def HandleNonMatching_def OffNonMatching_def
  map_index_def ErrNet_def

section \<open>Connect\<close>

text \<open>
  C1. Let \<^verbatim>\<open>Open(r)\<close> return the connection \<open>c\<close>, the write of the route
  succeed and the read of the status return \<open>status\<close>. Then \<^verbatim>\<open>Connect(r)\<close>
  has called \<^verbatim>\<open>Open\<close> once, has written \<open>r\<close> as 4 big-endian bytes on
  \<open>c\<close> and has not closed it; it returns the connection with a nil error when the
  status is the exact-match or the fallback-match code, and otherwise no connection and
  \<^verbatim>\<open>HandlerError{r}\<close>. When the peer's 4 bytes arrive in one piece, the status is their
  big-endian value and exactly they are consumed.
\<close>

theorem Connect_handshake:
  assumes "Open (transporter b) r (tstate b) = (Inr c, s')"
      and "writeUInt32 c r = (None, c1)"
      and "readUInt32 c1 = (Inr status, c2)"
  shows "Connect b r =
           (if status = handlerExists \<or> status = nonMatchingHandlerExists
            then Inr c2 else Inl (HandlerError r),
            Some c2, b\<lparr>tstate := s'\<rparr>) \<and>
         outgoing c2 = outgoing c @ BigEndian_PutUint32 r \<and>
         closed c2 = closed c \<and>
         (\<forall>bs rest. incoming c = (bs, None) # rest \<and> length bs = 4 \<longrightarrow>
            status = BigEndian_Uint32 bs \<and> incoming c2 = rest)"
proof -
  have result: "Connect b r =
           (if status = handlerExists \<or> status = nonMatchingHandlerExists
            then Inr c2 else Inl (HandlerError r),
            Some c2, b\<lparr>tstate := s'\<rparr>)"
    using assms by (simp add: Connect_def)
  from writeUInt32_None [OF assms(2)]
  have c1: "c1 = c\<lparr>write_errs := tl (write_errs c),
                   outgoing := outgoing c @ BigEndian_PutUint32 r\<rparr>"
    by simp
  from readUInt32_conn [OF assms(3)]
  have c2: "outgoing c2 = outgoing c1" "closed c2 = closed c1"
    by simp_all
  have whole: "status = BigEndian_Uint32 bs \<and> incoming c2 = rest"
    if "incoming c = (bs, None) # rest" "length bs = 4" for bs rest
  proof -
    have "incoming c1 = (bs, None) # rest"
      using that c1 by simp
    from readUInt32_full [OF this that(2)] assms(3) show ?thesis
      by simp
  qed
  show ?thesis
    using result c1 c2 whole by simp
qed

theorem Connect_handshake_witness:
  "Connect (New scripted ([Inr (chunked [[0, 0, 0, 2]])], [])) 7 =
     (Inr ((chunked [])\<lparr>outgoing := [0, 0, 0, 7]\<rparr>),
      Some ((chunked [])\<lparr>outgoing := [0, 0, 0, 7]\<rparr>),
      New scripted ([], [])) \<and>
   Connect (New scripted ([Inr (chunked [[0, 0, 0, 4]])], [])) 7 =
     (Inl (HandlerError 7),
      Some ((chunked [])\<lparr>outgoing := [0, 0, 0, 7]\<rparr>),
      New scripted ([], []))"
proof -
  have o: "Open (transporter (New scripted ([Inr (chunked [bs])], []))) 7
             (tstate (New scripted ([Inr (chunked [bs])], []))) =
           (Inr (chunked [bs]), ([], []))" for bs
    by (simp add: bon_eval)
  have w: "writeUInt32 (chunked [bs]) 7 =
           (None, (chunked [bs])\<lparr>outgoing := [0, 0, 0, 7]\<rparr>)" for bs
    by (simp add: conn_eval)
  have r2: "readUInt32 ((chunked [[0, 0, 0, 2]])\<lparr>outgoing := [0, 0, 0, 7]\<rparr>) =
           (Inr 2, (chunked [])\<lparr>outgoing := [0, 0, 0, 7]\<rparr>)"
    by (simp add: conn_eval)
  have r4: "readUInt32 ((chunked [[0, 0, 0, 4]])\<lparr>outgoing := [0, 0, 0, 7]\<rparr>) =
           (Inr 4, (chunked [])\<lparr>outgoing := [0, 0, 0, 7]\<rparr>)"
    by (simp add: conn_eval)
  show ?thesis
    using Connect_handshake [OF o w r2] Connect_handshake [OF o w r4]
    by (simp add: status_values New_def)
qed

text \<open>
  C9. Under the same conditions, every status other than 1 (exact match) and 2 (fallback
  match) makes \<^verbatim>\<open>Connect(r)\<close> return no connection and \<^verbatim>\<open>HandlerError{r}\<close>:
  the no-match code 4 and every value that is none of the three codes alike.
\<close>

theorem Connect_other_status:
  assumes "Open (transporter b) r (tstate b) = (Inr c, s')"
      and "writeUInt32 c r = (None, c1)"
      and "readUInt32 c1 = (Inr status, c2)"
      and "status \<noteq> 1" and "status \<noteq> 2"
  shows "Connect b r = (Inl (HandlerError r), Some c2, b\<lparr>tstate := s'\<rparr>) \<and>
         handlerDoesNotExists = 4 \<and> handlerExists = 1 \<and> nonMatchingHandlerExists = 2"
  using assms by (simp add: Connect_def status_values)

theorem Connect_other_status_witness:
  "Connect (New scripted ([Inr (chunked [[0, 0, 0, 4]])], [])) 9 =
     (Inl (HandlerError 9), Some ((chunked [])\<lparr>outgoing := [0, 0, 0, 9]\<rparr>),
      New scripted ([], [])) \<and>
   Connect (New scripted ([Inr (chunked [[255, 0, 0, 3]])], [])) 9 =
     (Inl (HandlerError 9), Some ((chunked [])\<lparr>outgoing := [0, 0, 0, 9]\<rparr>),
      New scripted ([], []))"
proof -
  have o: "Open (transporter (New scripted ([Inr (chunked [bs])], []))) 9
             (tstate (New scripted ([Inr (chunked [bs])], []))) =
           (Inr (chunked [bs]), ([], []))" for bs
    by (simp add: bon_eval)
  have w: "writeUInt32 (chunked [bs]) 9 =
           (None, (chunked [bs])\<lparr>outgoing := [0, 0, 0, 9]\<rparr>)" for bs
    by (simp add: conn_eval)
  have r4: "readUInt32 ((chunked [[0, 0, 0, 4]])\<lparr>outgoing := [0, 0, 0, 9]\<rparr>) =
           (Inr 4, (chunked [])\<lparr>outgoing := [0, 0, 0, 9]\<rparr>)"
    by (simp add: conn_eval)
  have rx: "readUInt32 ((chunked [[255, 0, 0, 3]])\<lparr>outgoing := [0, 0, 0, 9]\<rparr>) =
           (Inr 4278190083, (chunked [])\<lparr>outgoing := [0, 0, 0, 9]\<rparr>)"
    by (simp add: conn_eval)
  have n4: "(4 :: uint32) \<noteq> 1" "(4 :: uint32) \<noteq> 2"
    by simp_all
  have nx: "(4278190083 :: uint32) \<noteq> 1" "(4278190083 :: uint32) \<noteq> 2"
    by simp_all
  show ?thesis
    using Connect_other_status [OF o w r4 n4] Connect_other_status [OF o w rx nx]
    by (simp add: New_def)
qed

section \<open>Dispatch\<close>

text \<open>
  C2. Let the route tag \<open>data\<close> be read and the status write succeed. Then
  \<^verbatim>\<open>handleConn\<close> resolves the handler in this order: the handler stored for
  \<open>data\<close> in the route map (status exact-match), else the fallback handler (status
  fallback-match), else none (status no-match). With a handler, its last action is the call
  of that handler on the connection as the status write left it; with none, it closes the
  connection itself, logging the error of \<^verbatim>\<open>Close\<close> if there is one.
\<close>

theorem handleConn_resolution:
  assumes "readUInt32 c = (Inr data, c1)" and "next_write_err c1 = None"
  shows "handleConn b c =
     (case map_index (handlers b) data of
        Some h \<Rightarrow>
          (Dispatched h (c1\<lparr>write_errs := tl (write_errs c1),
               outgoing := outgoing c1 @ BigEndian_PutUint32 handlerExists\<rparr>), b)
      | None \<Rightarrow>
          (case nonMatchingHandler b of
             Some h \<Rightarrow>
               (Dispatched h (c1\<lparr>write_errs := tl (write_errs c1),
                    outgoing := outgoing c1 @ BigEndian_PutUint32 nonMatchingHandlerExists\<rparr>), b)
           | None \<Rightarrow>
               (Rejected (c1\<lparr>write_errs := tl (write_errs c1),
                    outgoing := outgoing c1 @ BigEndian_PutUint32 handlerDoesNotExists,
                    closed := True\<rparr>),
                b\<lparr>log := log b @ (case close_err c1 of None \<Rightarrow> [] | Some e \<Rightarrow> [e])\<rparr>)))"
proof (cases "map_index (handlers b) data")
  case (Some h)
  with handleConn_exact [OF assms this] show ?thesis
    by simp
next
  case None
  show ?thesis
  proof (cases "nonMatchingHandler b")
    case (Some h)
    with None handleConn_fallback [OF assms None this] show ?thesis
      by simp
  next
    case no_fallback: None
    with None handleConn_no_handler [OF assms None this] show ?thesis
      by simp
  qed
qed

theorem handleConn_resolution_witness:
  "handleConn (Handle 5 (Some (Handler 1))
       (HandleNonMatching (Some (Handler 2)) (New scripted ([], []))))
     (chunked [[0, 0, 0, 5]]) =
     (Dispatched (Handler 1) ((chunked [])\<lparr>outgoing := [0, 0, 0, 1]\<rparr>),
      Handle 5 (Some (Handler 1))
       (HandleNonMatching (Some (Handler 2)) (New scripted ([], [])))) \<and>
   handleConn (Handle 5 (Some (Handler 1))
       (HandleNonMatching (Some (Handler 2)) (New scripted ([], []))))
     (chunked [[0, 0, 0, 6]]) =
     (Dispatched (Handler 2) ((chunked [])\<lparr>outgoing := [0, 0, 0, 2]\<rparr>),
      Handle 5 (Some (Handler 1))
       (HandleNonMatching (Some (Handler 2)) (New scripted ([], [])))) \<and>
   handleConn (Handle 5 (Some (Handler 1)) (New scripted ([], [])))
     (chunked [[0, 0, 0, 6]]) =
     (Rejected ((chunked [])\<lparr>outgoing := [0, 0, 0, 4], closed := True\<rparr>),
      Handle 5 (Some (Handler 1)) (New scripted ([], [])))"
proof -
  have r5: "readUInt32 (chunked [[0, 0, 0, 5]]) = (Inr 5, chunked [])"
    by (simp add: conn_eval)
  have r6: "readUInt32 (chunked [[0, 0, 0, 6]]) = (Inr 6, chunked [])"
    by (simp add: conn_eval)
  have w: "next_write_err (chunked []) = None"
    by (simp add: conn_eval)
  show ?thesis
    using handleConn_resolution [OF r5 w, of "Handle 5 (Some (Handler 1))
              (HandleNonMatching (Some (Handler 2)) (New scripted ([], [])))"]
          handleConn_resolution [OF r6 w, of "Handle 5 (Some (Handler 1))
              (HandleNonMatching (Some (Handler 2)) (New scripted ([], [])))"]
          handleConn_resolution [OF r6 w, of "Handle 5 (Some (Handler 1))
              (New scripted ([], []))"]
    by (simp add: bon_eval conn_eval status_values)
qed

text \<open>
  C10. \<^verbatim>\<open>Handle(r, nil)\<close> stores a nil entry: the key \<open>r\<close> is present in the
  map. Dispatch then ends, for every connection, as it does when \<open>r\<close> has no entry, and
  logs the same. For a connection asking for \<open>r\<close>: the fallback handler is called if
  there is one (status fallback-match), and otherwise the status is no-match and the
  connection is closed; no handler is called.
\<close>

theorem Handle_nil_entry:
  "handlers (Handle r None b) r = Some None \<and>
   r \<in> dom (handlers (Handle r None b)) \<and>
   fst (handleConn (Handle r None b) c) = fst (handleConn (Off r b) c) \<and>
   log (snd (handleConn (Handle r None b) c)) = log (snd (handleConn (Off r b) c)) \<and>
   (readUInt32 c' = (Inr r, c1) \<and> next_write_err c1 = None \<longrightarrow>
      fst (handleConn (Handle r None b) c') =
        (case nonMatchingHandler b of
           Some h \<Rightarrow>
             Dispatched h (c1\<lparr>write_errs := tl (write_errs c1),
               outgoing := outgoing c1 @ BigEndian_PutUint32 nonMatchingHandlerExists\<rparr>)
         | None \<Rightarrow>
             Rejected (c1\<lparr>write_errs := tl (write_errs c1),
               outgoing := outgoing c1 @ BigEndian_PutUint32 handlerDoesNotExists,
               closed := True\<rparr>)))"
proof -
  have "fst (handleConn (Handle r None b) c') =
        (case nonMatchingHandler b of
           Some h \<Rightarrow>
             Dispatched h (c1\<lparr>write_errs := tl (write_errs c1),
               outgoing := outgoing c1 @ BigEndian_PutUint32 nonMatchingHandlerExists\<rparr>)
         | None \<Rightarrow>
             Rejected (c1\<lparr>write_errs := tl (write_errs c1),
               outgoing := outgoing c1 @ BigEndian_PutUint32 handlerDoesNotExists,
               closed := True\<rparr>))"
    if "readUInt32 c' = (Inr r, c1)" "next_write_err c1 = None"
  proof (cases "nonMatchingHandler b")
    case None
    then have "nonMatchingHandler (Handle r None b) = None"
      by (simp add: Handle_def)
    from handleConn_no_handler [OF that map_index_Handle_nil this] None show ?thesis
      by simp
  next
    case (Some h)
    then have "nonMatchingHandler (Handle r None b) = Some h"
      by (simp add: Handle_def)
    from handleConn_fallback [OF that map_index_Handle_nil this] Some show ?thesis
      by simp
  qed
  then show ?thesis
    by (simp add: handleConn_nil_entry) (simp add: Handle_def)
qed

theorem Handle_nil_entry_witness:
  "fst (handleConn (Handle 5 None (HandleNonMatching (Some (Handler 2)) (New scripted ([], []))))
     (chunked [[0, 0, 0, 5]])) =
     Dispatched (Handler 2) ((chunked [])\<lparr>outgoing := [0, 0, 0, 2]\<rparr>) \<and>
   fst (handleConn (Handle 5 None (New scripted ([], []))) (chunked [[0, 0, 0, 5]])) =
     Rejected ((chunked [])\<lparr>outgoing := [0, 0, 0, 4], closed := True\<rparr>)"
proof -
  have r5: "readUInt32 (chunked [[0, 0, 0, 5]]) = (Inr 5, chunked [])"
    by (simp add: conn_eval)
  have w: "next_write_err (chunked []) = None"
    by (simp add: conn_eval)
  show ?thesis
    using Handle_nil_entry [of 5 "HandleNonMatching (Some (Handler 2)) (New scripted ([], []))"
            "chunked []" "chunked [[0, 0, 0, 5]]" "chunked []"]
          Handle_nil_entry [of 5 "New scripted ([], [])"
            "chunked []" "chunked [[0, 0, 0, 5]]" "chunked []"]
          r5 w
    by (simp add: bon_eval conn_eval status_values)
qed

text \<open>
  C7. \<^verbatim>\<open>Handle(R, H)\<close> followed by \<^verbatim>\<open>Off(R)\<close> leaves the registry as
  \<^verbatim>\<open>Off(R)\<close> alone does; on a registry without \<open>R\<close> both leave it as it was,
  so \<^verbatim>\<open>Off(R)\<close> is a no-op there. With no fallback handler, a dispatch for
  \<open>R\<close> afterwards finds no handler: status no-match, connection closed.
\<close>

theorem Off_after_Handle:
  "Off r (Handle r h b) = Off r b \<and>
   (r \<notin> dom (handlers b) \<longrightarrow> Off r b = b \<and> Off r (Handle r h b) = b) \<and>
   (nonMatchingHandler b' = None \<and> readUInt32 c = (Inr r', c1) \<and>
    next_write_err c1 = None \<longrightarrow>
      fst (handleConn (Off r' (Handle r' h' b')) c) =
        Rejected (c1\<lparr>write_errs := tl (write_errs c1),
          outgoing := outgoing c1 @ BigEndian_PutUint32 handlerDoesNotExists,
          closed := True\<rparr>) \<and>
      handleConn (Off r' (Handle r' h' b')) c = handleConn (Off r' b') c)"
proof -
  have "fst (handleConn (Off r' (Handle r' h' b')) c) =
        Rejected (c1\<lparr>write_errs := tl (write_errs c1),
          outgoing := outgoing c1 @ BigEndian_PutUint32 handlerDoesNotExists,
          closed := True\<rparr>)"
    if "nonMatchingHandler b' = None" "readUInt32 c = (Inr r', c1)" "next_write_err c1 = None"
  proof -
    have "nonMatchingHandler (Off r' b') = None"
      using that(1) by (simp add: Off_def)
    from handleConn_no_handler [OF that(2,3) map_index_Off this] show ?thesis
      by (simp add: Off_Handle)
  qed
  then show ?thesis
    by (simp add: Off_Handle Off_absent)
qed

theorem Off_after_Handle_witness:
  "Off 5 (Handle 5 (Some (Handler 1)) (New scripted ([], []))) = New scripted ([], []) \<and>
   Off 5 (New scripted ([], [])) = New scripted ([], []) \<and>
   fst (handleConn (Off 5 (Handle 5 (Some (Handler 1)) (New scripted ([], []))))
     (chunked [[0, 0, 0, 5]])) =
     Rejected ((chunked [])\<lparr>outgoing := [0, 0, 0, 4], closed := True\<rparr>)"
proof -
  have d: "5 \<notin> dom (handlers (New scripted ([], [])))"
    by (simp add: bon_eval)
  have n: "nonMatchingHandler (New scripted ([], [])) = None"
    by (simp add: bon_eval)
  have r5: "readUInt32 (chunked [[0, 0, 0, 5]]) = (Inr 5, chunked [])"
    by (simp add: conn_eval)
  have w: "next_write_err (chunked []) = None"
    by (simp add: conn_eval)
  note t = Off_after_Handle [of 5 "Some (Handler 1)" "New scripted ([], [])"
      "New scripted ([], [])" "chunked [[0, 0, 0, 5]]" 5 "chunked []" "Some (Handler 1)"]
  from t d have a: "Off 5 (New scripted ([], [])) = New scripted ([], [])"
    "Off 5 (Handle 5 (Some (Handler 1)) (New scripted ([], []))) = New scripted ([], [])"
    by blast+
  from t n r5 w
  have "fst (handleConn (Off 5 (Handle 5 (Some (Handler 1)) (New scripted ([], []))))
          (chunked [[0, 0, 0, 5]])) =
        Rejected ((chunked [])\<lparr>write_errs := tl (write_errs (chunked [])),
          outgoing := outgoing (chunked []) @ BigEndian_PutUint32 handlerDoesNotExists,
          closed := True\<rparr>)"
    by blast
  also have "\<dots> = Rejected ((chunked [])\<lparr>outgoing := [0, 0, 0, 4], closed := True\<rparr>)"
    by (simp add: conn_eval status_values)
  finally show ?thesis
    using a by blast
qed

section \<open>The wire format\<close>

text \<open>
  C4. The three status codes are 1, 2 and 4: pairwise distinct, not zero, and each has
  exactly one bit set (bit 0, bit 1, bit 2). When the route tag is read and the status write
  succeeds, the bytes \<^verbatim>\<open>handleConn\<close> puts on the wire are the 4-byte big-endian
  encoding of the code the lookup chose, that is \<open>00 00 00 01\<close>, \<open>00 00 00 02\<close> or
  \<open>00 00 00 04\<close>; decoding an encoded value gives the value back.
\<close>

theorem status_codes:
  "handlerExists = 1 \<and> nonMatchingHandlerExists = 2 \<and> handlerDoesNotExists = 4 \<and>
   distinct [handlerExists, nonMatchingHandlerExists, handlerDoesNotExists] \<and>
   0 \<notin> set [handlerExists, nonMatchingHandlerExists, handlerDoesNotExists] \<and>
   bit handlerExists n = (n = 0) \<and>
   bit nonMatchingHandlerExists n = (n = 1) \<and>
   bit handlerDoesNotExists n = (n = 2) \<and>
   (readUInt32 c = (Inr data, c1) \<and> next_write_err c1 = None \<longrightarrow>
      outgoing (outcome_conn (fst (handleConn b c))) =
        outgoing c @ BigEndian_PutUint32
          (if map_index (handlers b) data \<noteq> None then handlerExists
           else if nonMatchingHandler b \<noteq> None then nonMatchingHandlerExists
           else handlerDoesNotExists)) \<and>
   BigEndian_PutUint32 handlerExists = [0, 0, 0, 1] \<and>
   BigEndian_PutUint32 nonMatchingHandlerExists = [0, 0, 0, 2] \<and>
   BigEndian_PutUint32 handlerDoesNotExists = [0, 0, 0, 4] \<and>
   BigEndian_PutUint32 16909060 = [1, 2, 3, 4] \<and>
   BigEndian_Uint32 (BigEndian_PutUint32 v) = v"
proof -
  have wire: "outgoing (outcome_conn (fst (handleConn b c))) =
        outgoing c @ BigEndian_PutUint32
          (if map_index (handlers b) data \<noteq> None then handlerExists
           else if nonMatchingHandler b \<noteq> None then nonMatchingHandlerExists
           else handlerDoesNotExists)"
    if "readUInt32 c = (Inr data, c1)" "next_write_err c1 = None"
  proof -
    have same: "outgoing c1 = outgoing c"
      using readUInt32_conn [OF that(1)] by simp
    show ?thesis
    proof (cases "map_index (handlers b) data")
      case (Some h)
      with handleConn_exact [OF that this] same show ?thesis
        by simp
    next
      case None
      show ?thesis
      proof (cases "nonMatchingHandler b")
        case (Some h)
        with None handleConn_fallback [OF that None this] same show ?thesis
          by simp
      next
        case no_fallback: None
        with None handleConn_no_handler [OF that None this] same show ?thesis
          by simp
      qed
    qed
  qed
  have bytes: "BigEndian_PutUint32 handlerExists = [0, 0, 0, 1]"
    "BigEndian_PutUint32 nonMatchingHandlerExists = [0, 0, 0, 2]"
    "BigEndian_PutUint32 handlerDoesNotExists = [0, 0, 0, 4]"
    by (simp_all add: status_values BigEndian_PutUint32_def)
  have order: "BigEndian_PutUint32 16909060 = [1, 2, 3, 4]"
    by (simp add: BigEndian_PutUint32_def)
  have codes: "distinct [handlerExists, nonMatchingHandlerExists, handlerDoesNotExists]"
    "0 \<notin> set [handlerExists, nonMatchingHandlerExists, handlerDoesNotExists]"
    by (simp_all add: status_values)
  show ?thesis
    using wire bytes order codes status_values status_bits [of n] Uint32_PutUint32 [of v]
    by blast
qed

theorem status_codes_witness:
  "outgoing (outcome_conn (fst (handleConn
      (HandleNonMatching (Some (Handler 2)) (New scripted ([], [])))
      (chunked [[0, 0, 0, 5]])))) = [0, 0, 0, 2]"
proof -
  have r5: "readUInt32 (chunked [[0, 0, 0, 5]]) = (Inr 5, chunked [])"
    by (simp add: conn_eval)
  have w: "next_write_err (chunked []) = None"
    by (simp add: conn_eval)
  show ?thesis
    using status_codes [of 0 "chunked [[0, 0, 0, 5]]" 5 "chunked []"
            "HandleNonMatching (Some (Handler 2)) (New scripted ([], []))" 0] r5 w
    by (simp add: bon_eval conn_eval)
qed

section \<open>The accept loop and its failures\<close>

text \<open>
  C6. \<^verbatim>\<open>Run\<close> returns exactly when a call of \<^verbatim>\<open>Accept\<close> returns an error,
  and returns that error: if the first \<open>n\<close> calls return connections and the next one
  fails with \<open>e\<close>, then \<^verbatim>\<open>Run\<close> returns \<open>e\<close>, having spawned \<open>n\<close>
  goroutines and called \<^verbatim>\<open>Accept\<close> \<open>n + 1\<close> times; and whenever
  \<^verbatim>\<open>Run\<close> returns \<open>e\<close>, there is such an \<open>n\<close>. If \<^verbatim>\<open>Open\<close>
  fails inside \<^verbatim>\<open>Connect\<close>, its error is what \<^verbatim>\<open>Connect\<close> returns, with
  no connection, after that one call of \<^verbatim>\<open>Open\<close>.
\<close>

theorem Run_returns_Accept_error:
  "((\<forall>k<n. \<exists>c. nth_accept (transporter b) k (tstate b) = Inr c) \<and>
    nth_accept (transporter b) n (tstate b) = Inl e \<longrightarrow>
      (\<exists>outs bf. Run b = Some (e, outs, bf) \<and> length outs = n \<and>
         tstate bf = accept_state (transporter b) (Suc n) (tstate b))) \<and>
   (Run ba = Some (ea, outs, bf) \<longrightarrow>
      (\<exists>m. (\<forall>k<m. \<exists>c. nth_accept (transporter ba) k (tstate ba) = Inr c) \<and>
         nth_accept (transporter ba) m (tstate ba) = Inl ea)) \<and>
   (Open (transporter bb) r (tstate bb) = (Inl err, s') \<longrightarrow>
      Connect bb r = (Inl err, None, bb\<lparr>tstate := s'\<rparr>))"
proof (intro conjI impI)
  assume "(\<forall>k<n. \<exists>c. nth_accept (transporter b) k (tstate b) = Inr c) \<and>
    nth_accept (transporter b) n (tstate b) = Inl e"
  then show "\<exists>outs bf. Run b = Some (e, outs, bf) \<and> length outs = n \<and>
         tstate bf = accept_state (transporter b) (Suc n) (tstate b)"
    using Run_loop_returns [of n b e "[]"] by (simp add: Run_def)
next
  assume "Run ba = Some (ea, outs, bf)"
  then show "\<exists>m. (\<forall>k<m. \<exists>c. nth_accept (transporter ba) k (tstate ba) = Inr c) \<and>
         nth_accept (transporter ba) m (tstate ba) = Inl ea"
    using Run_loop_sound [of ba "[]" "(ea, outs, bf)"] by (simp add: Run_def)
next
  assume "Open (transporter bb) r (tstate bb) = (Inl err, s')"
  then show "Connect bb r = (Inl err, None, bb\<lparr>tstate := s'\<rparr>)"
    by (simp add: Connect_def)
qed

theorem Run_returns_Accept_error_witness:
  "(\<exists>outs bf. Run (New scripted ([], [Inr (chunked [[0, 0, 0, 5]]), Inr (chunked []),
        Inl (NetError 9), Inr (chunked [])])) = Some (NetError 9, outs, bf) \<and>
      length outs = 2 \<and> tstate bf = ([], [Inr (chunked [])])) \<and>
   Connect (New scripted ([Inl (NetError 3)], [])) 1 =
     (Inl (NetError 3), None, New scripted ([], []))"
proof -
  let ?s = "([], [Inr (chunked [[0, 0, 0, 5]]), Inr (chunked []), Inl (NetError 9),
      Inr (chunked [])]) :: (error + conn) list \<times> (error + conn) list"
  have a: "\<forall>k<Suc (Suc 0). \<exists>c.
      nth_accept (transporter (New scripted ?s)) k (tstate (New scripted ?s)) = Inr c"
    by (simp add: less_Suc_eq nth_accept_def bon_eval)
  have f: "nth_accept (transporter (New scripted ?s)) (Suc (Suc 0)) (tstate (New scripted ?s)) =
      Inl (NetError 9)"
    by (simp add: nth_accept_def bon_eval)
  have o: "Open (transporter (New scripted ([Inl (NetError 3)], []))) 1
      (tstate (New scripted ([Inl (NetError 3)], []))) = (Inl (NetError 3), ([], []))"
    by (simp add: bon_eval)
  note t = Run_returns_Accept_error [where n = "Suc (Suc 0)" and b = "New scripted ?s"
      and e = "NetError 9" and bb = "New scripted ([Inl (NetError 3)], [])" and r = 1
      and err = "NetError 3" and s' = "([], [])"]
  from t a f have "\<exists>outs bf. Run (New scripted ?s) = Some (NetError 9, outs, bf) \<and>
      length outs = Suc (Suc 0) \<and>
      tstate bf = accept_state (transporter (New scripted ?s)) (Suc (Suc (Suc 0)))
        (tstate (New scripted ?s))"
    by blast
  moreover have "accept_state (transporter (New scripted ?s)) (Suc (Suc (Suc 0)))
        (tstate (New scripted ?s)) = ([], [Inr (chunked [])])"
    by (simp add: bon_eval)
  moreover from t o have "Connect (New scripted ([Inl (NetError 3)], [])) 1 =
     (Inl (NetError 3), None, (New scripted ([Inl (NetError 3)], []))\<lparr>tstate := ([], [])\<rparr>)"
    by blast
  moreover have "(New scripted ([Inl (NetError 3)], []))\<lparr>tstate := ([], [])\<rparr> =
      New scripted ([], [])"
    by (simp add: New_def)
  ultimately show ?thesis
    by (simp add: numeral_2_eq_2)
qed

text \<open>
  C5. When the read of the route tag fails, or the write of the status fails,
  \<^verbatim>\<open>handleConn\<close> logs the error and returns: no handler is called and the
  connection is not closed. \<^verbatim>\<open>Run\<close> then goes on with the next \<^verbatim>\<open>Accept\<close>,
  and whatever \<^verbatim>\<open>Run\<close> returns is an error that \<^verbatim>\<open>Accept\<close> returned.
\<close>

theorem handleConn_io_failure:
  "(readUInt32 c = (Inl err, c1) \<longrightarrow>
      handleConn b c = (Abandoned c1, b\<lparr>log := log b @ [err]\<rparr>)) \<and>
   (readUInt32 ca = (Inr data, ca1) \<and> next_write_err ca1 = Some erra \<longrightarrow>
      handleConn ba ca =
        (Abandoned (ca1\<lparr>write_errs := tl (write_errs ca1)\<rparr>), ba\<lparr>log := log ba @ [erra]\<rparr>)) \<and>
   (Accept (transporter bb) (tstate bb) = (Inr cb, s') \<and>
    handleConn (bb\<lparr>tstate := s'\<rparr>) cb = (Abandoned cb1, bb1) \<longrightarrow>
      Run_loop bb sp = Run_loop bb1 (sp @ [Abandoned cb1]) \<and>
      transporter bb1 = transporter bb \<and> tstate bb1 = s') \<and>
   (Run bc = Some (e, outs, bf) \<longrightarrow>
      (\<exists>n. (\<forall>k<n. \<exists>c. nth_accept (transporter bc) k (tstate bc) = Inr c) \<and>
         nth_accept (transporter bc) n (tstate bc) = Inl e))"
proof -
  have 1: "handleConn b c = (Abandoned c1, b\<lparr>log := log b @ [err]\<rparr>)"
    if "readUInt32 c = (Inl err, c1)"
    using that by (simp add: handleConn_def)
  have 2: "handleConn ba ca =
        (Abandoned (ca1\<lparr>write_errs := tl (write_errs ca1)\<rparr>), ba\<lparr>log := log ba @ [erra]\<rparr>)"
    if "readUInt32 ca = (Inr data, ca1)" "next_write_err ca1 = Some erra"
    using that by (simp add: handleConn_def writeUInt32_fail Let_def split: prod.splits)
  have 3: "Run_loop bb sp = Run_loop bb1 (sp @ [Abandoned cb1]) \<and>
      transporter bb1 = transporter bb \<and> tstate bb1 = s'"
    if "Accept (transporter bb) (tstate bb) = (Inr cb, s')"
      "handleConn (bb\<lparr>tstate := s'\<rparr>) cb = (Abandoned cb1, bb1)"
  proof -
    have "Run_loop bb sp = Run_loop bb1 (sp @ [Abandoned cb1])"
      using that by (subst Run_loop.simps) simp
    moreover have "transporter bb1 = transporter bb" "tstate bb1 = s'"
      using that(2) handleConn_provider [of "bb\<lparr>tstate := s'\<rparr>" cb] by simp_all
    ultimately show ?thesis
      by simp
  qed
  have 4: "\<exists>n. (\<forall>k<n. \<exists>c. nth_accept (transporter bc) k (tstate bc) = Inr c) \<and>
         nth_accept (transporter bc) n (tstate bc) = Inl e"
    if "Run bc = Some (e, outs, bf)"
    using that Run_loop_sound [of bc "[]" "(e, outs, bf)"] by (simp add: Run_def)
  show ?thesis
    using 1 2 3 4 by blast
qed

theorem handleConn_io_failure_witness:
  "handleConn (New scripted ([], [])) (chunked []) =
     (Abandoned (chunked []), (New scripted ([], []))\<lparr>log := [EOF]\<rparr>) \<and>
   handleConn (New scripted ([], []))
       ((chunked [[0, 0, 0, 5]])\<lparr>write_errs := [Some (NetError 3)]\<rparr>) =
     (Abandoned (chunked []), (New scripted ([], []))\<lparr>log := [NetError 3]\<rparr>) \<and>
   Run_loop (New scripted ([], [Inr (chunked [])])) [] =
     Run_loop ((New scripted ([], []))\<lparr>log := [EOF]\<rparr>) [Abandoned (chunked [])] \<and>
   (\<exists>n. nth_accept scripted n ([], [Inr (chunked [])]) = Inl ErrNet)"
proof -
  let ?b = "New scripted ([], []) :: ((error + conn) list \<times> (error + conn) list) Bon"
  let ?b1 = "New scripted ([], [Inr (chunked [])])"
  let ?cw = "(chunked [[0, 0, 0, 5]])\<lparr>write_errs := [Some (NetError 3)]\<rparr>"
  have r: "readUInt32 (chunked []) = (Inl EOF, chunked [])"
    by (simp add: conn_eval)
  have rw: "readUInt32 ?cw = (Inr 5, (chunked [])\<lparr>write_errs := [Some (NetError 3)]\<rparr>)"
    by (simp add: conn_eval)
  have w: "next_write_err ((chunked [])\<lparr>write_errs := [Some (NetError 3)]\<rparr>) =
      Some (NetError 3)"
    by (simp add: conn_eval)
  have a: "Accept (transporter ?b1) (tstate ?b1) = (Inr (chunked []), ([], []))"
    by (simp add: bon_eval)
  have h: "handleConn (?b1\<lparr>tstate := ([], [])\<rparr>) (chunked []) =
      (Abandoned (chunked []), ?b\<lparr>log := [EOF]\<rparr>)"
    by (simp add: handleConn_def r New_def)
  have run: "Run ?b1 = Some (ErrNet, [Abandoned (chunked [])], ?b\<lparr>log := [EOF]\<rparr>)"
    unfolding Run_def
    by (subst Run_loop.simps, simp add: a h, subst Run_loop.simps, simp add: bon_eval)
  note t = handleConn_io_failure [where c = "chunked []" and err = EOF and ?c1.0 = "chunked []"
      and b = ?b and ca = ?cw and data = 5
      and ?ca1.0 = "(chunked [])\<lparr>write_errs := [Some (NetError 3)]\<rparr>"
      and erra = "NetError 3" and ba = ?b and bb = ?b1 and cb = "chunked []"
      and s' = "([], [])" and ?cb1.0 = "chunked []" and ?bb1.0 = "?b\<lparr>log := [EOF]\<rparr>"
      and sp = "[]" and bc = ?b1 and e = ErrNet and outs = "[Abandoned (chunked [])]"
      and bf = "?b\<lparr>log := [EOF]\<rparr>"]
  from t r have 1: "handleConn ?b (chunked []) = (Abandoned (chunked []), ?b\<lparr>log := log ?b @ [EOF]\<rparr>)"
    by blast
  from t rw w have 2: "handleConn ?b ?cw =
      (Abandoned (((chunked [])\<lparr>write_errs := [Some (NetError 3)]\<rparr>)
         \<lparr>write_errs := tl (write_errs ((chunked [])\<lparr>write_errs := [Some (NetError 3)]\<rparr>))\<rparr>),
       ?b\<lparr>log := log ?b @ [NetError 3]\<rparr>)"
    by blast
  from t a h have 3: "Run_loop ?b1 [] = Run_loop (?b\<lparr>log := [EOF]\<rparr>) ([] @ [Abandoned (chunked [])])"
    by blast
  from t run obtain n where
    4: "nth_accept (transporter ?b1) n (tstate ?b1) = Inl ErrNet"
    by blast
  have 5: "log ?b = []" "transporter ?b1 = scripted" "tstate ?b1 = ([], [Inr (chunked [])])"
    by (simp_all add: New_def)
  have 6: "((chunked [])\<lparr>write_errs := [Some (NetError 3)]\<rparr>)
         \<lparr>write_errs := tl (write_errs ((chunked [])\<lparr>write_errs := [Some (NetError 3)]\<rparr>))\<rparr> =
       chunked []"
    by (simp add: chunked_def)
  show ?thesis
    using 1 2 3 4 unfolding 5 6 by auto
qed

section \<open>Short reads\<close>

text \<open>
  C3. The specification asks that a handshake read obtains the peer's 4 bytes even when one
  \<^verbatim>\<open>Read\<close> call returns fewer. \<^verbatim>\<open>readUInt32\<close> calls \<^verbatim>\<open>Read\<close> once and
  decodes its whole buffer. Here the peer's message is \<open>00 00 00 01\<close>, the value 1,
  arriving as \<open>00 00\<close> and then \<open>00 01\<close>: \<^verbatim>\<open>readUInt32\<close> returns 0 with no
  error and leaves \<open>00 01\<close> in the stream. So \<^verbatim>\<open>handleConn\<close> calls the handler of
  route 0 for a peer that asked for route 1, and \<^verbatim>\<open>Connect\<close> fails with
  \<^verbatim>\<open>HandlerError\<close> on a peer that answered exact-match.
\<close>

theorem readUInt32_short_read:
  "concat [[0, 0], [0, 1]] = BigEndian_PutUint32 1 \<and>
   readUInt32 (chunked [[0, 0], [0, 1]]) = (Inr 0, chunked [[0, 1]]) \<and>
   fst (handleConn
         (Handle 0 (Some (Handler 10)) (Handle 1 (Some (Handler 11)) (New scripted ([], []))))
         (chunked [[0, 0], [0, 1]])) =
     Dispatched (Handler 10) ((chunked [[0, 1]])\<lparr>outgoing := [0, 0, 0, 1]\<rparr>) \<and>
   fst (Connect (New scripted ([Inr (chunked [[0, 0], [0, 1]])], [])) 1) =
     Inl (HandlerError 1)"
proof -
  have r: "readUInt32 (chunked [[0, 0], [0, 1]]) = (Inr 0, chunked [[0, 1]])"
    by (simp add: conn_eval)
  have r': "readUInt32 ((chunked [[0, 0], [0, 1]])\<lparr>outgoing := [0, 0, 0, 1]\<rparr>) =
      (Inr 0, (chunked [[0, 1]])\<lparr>outgoing := [0, 0, 0, 1]\<rparr>)"
    by (simp add: conn_eval)
  have w: "writeUInt32 (chunked bss) 1 = (None, (chunked bss)\<lparr>outgoing := [0, 0, 0, 1]\<rparr>)"
    for bss
    by (simp add: conn_eval)
  have h: "fst (handleConn
         (Handle 0 (Some (Handler 10)) (Handle 1 (Some (Handler 11)) (New scripted ([], []))))
         (chunked [[0, 0], [0, 1]])) =
     Dispatched (Handler 10) ((chunked [[0, 1]])\<lparr>outgoing := [0, 0, 0, 1]\<rparr>)"
    by (simp add: handleConn_def r w bon_eval status_values)
  have c: "fst (Connect (New scripted ([Inr (chunked [[0, 0], [0, 1]])], [])) 1) =
     Inl (HandlerError 1)"
    by (simp add: Connect_def r' w bon_eval status_values)
  show ?thesis
    using r h c by (simp add: BigEndian_PutUint32_def)
qed

section \<open>A registry write between the two reads of the fallback handler\<close>

text \<open>
  C8. The specification asks that a dispatch racing \<^verbatim>\<open>OffNonMatching\<close> never reports
  fallback-match and then finds no handler. \<^verbatim>\<open>handleConn\<close> reads
  \<^verbatim>\<open>b.nonMatchingHandler\<close> a second time after releasing the read lock. Here the
  fallback handler is set, the route has no handler of its own, and
  \<^verbatim>\<open>OffNonMatching\<close> runs between the two reads: the status written is
  fallback-match (\<open>00 00 00 02\<close>), no handler is called and the connection is closed.
  With no write in between, the same dispatch calls the fallback handler.
\<close>

theorem handleConn_racing_OffNonMatching:
  "handleConn_racing [] [] [OpOffNonMatching]
       (HandleNonMatching (Some (Handler 7)) (New scripted ([], [])))
       (chunked [[0, 0, 0, 5]]) =
     (Rejected ((chunked [])\<lparr>outgoing := BigEndian_PutUint32 nonMatchingHandlerExists,
         closed := True\<rparr>),
      New scripted ([], [])) \<and>
   BigEndian_PutUint32 nonMatchingHandlerExists = [0, 0, 0, 2] \<and>
   handleConn_racing [] [] []
       (HandleNonMatching (Some (Handler 7)) (New scripted ([], [])))
       (chunked [[0, 0, 0, 5]]) =
     (Dispatched (Handler 7)
        ((chunked [])\<lparr>outgoing := BigEndian_PutUint32 nonMatchingHandlerExists\<rparr>),
      HandleNonMatching (Some (Handler 7)) (New scripted ([], [])))"
proof -
  let ?b = "HandleNonMatching (Some (Handler 7)) (New scripted ([], []))"
  have tag: "readUInt32 (chunked [[0, 0, 0, 5]]) = (Inr 5, chunked [])"
    by (simp add: conn_eval)
  have exact: "map_index (handlers ?b) 5 = None"
    by (simp add: bon_eval)
  have locked: "nonMatchingHandler ?b = Some (Handler 7)"
    by (simp add: bon_eval)
  have unlocked: "apply_ops [OpOffNonMatching] ?b = New scripted ([], [])"
    "nonMatchingHandler (New scripted ([], [])) = None"
    by (simp_all add: apply_ops_def bon_eval)
  have status: "writeUInt32 (chunked []) nonMatchingHandlerExists =
      (None, (chunked [])\<lparr>outgoing := BigEndian_PutUint32 nonMatchingHandlerExists\<rparr>)"
    by (simp add: conn_eval)
  have close: "conn_Close ((chunked [])\<lparr>outgoing := bs\<rparr>) =
      (None, (chunked [])\<lparr>outgoing := bs, closed := True\<rparr>)" for bs
    by (simp add: conn_eval)
  have none: "apply_ops [] b = b" for b :: "((error + conn) list \<times> (error + conn) list) Bon"
    by (simp add: apply_ops_def)
  have racing: "handleConn_racing [] [] [OpOffNonMatching] ?b (chunked [[0, 0, 0, 5]]) =
     (Rejected ((chunked [])\<lparr>outgoing := BigEndian_PutUint32 nonMatchingHandlerExists,
         closed := True\<rparr>),
      New scripted ([], []))"
    by (simp add: handleConn_racing_def Let_def tag none exact locked unlocked status close)
  have alone: "handleConn_racing [] [] [] ?b (chunked [[0, 0, 0, 5]]) =
     (Dispatched (Handler 7)
        ((chunked [])\<lparr>outgoing := BigEndian_PutUint32 nonMatchingHandlerExists\<rparr>), ?b)"
    by (simp add: handleConn_racing_def Let_def tag none exact locked status)
  have bytes: "BigEndian_PutUint32 nonMatchingHandlerExists = [0, 0, 0, 2]"
    by (simp add: status_values BigEndian_PutUint32_def)
  show ?thesis
    using racing alone bytes by simp
qed

end
